theory Spec2Isabelle
  imports Complex_Main "HOL-Library.Sublist"
begin

section \<open>Python strings\<close>

text \<open>
  Field names, labels and price-table lines are Python \<open>str\<close> values. They are modelled
  as \<open>string\<close> (lists of 8-bit characters) holding ASCII text; the string methods below
  follow Python on that range.
\<close>

text \<open>\<open>str.isspace\<close> on one ASCII character: TAB, LF, VT, FF, CR, FS, GS, RS, US and space.\<close>

definition py_isspace :: "char \<Rightarrow> bool" where
  "py_isspace c = (let n = of_char c :: nat in (9 \<le> n \<and> n \<le> 13) \<or> (28 \<le> n \<and> n \<le> 32))"

text \<open>\<open>s.strip()\<close>: whitespace removed at both ends.\<close>

definition strip :: "string \<Rightarrow> string" where
  "strip s = rev (dropWhile py_isspace (rev (dropWhile py_isspace s)))"

text \<open>\<open>s.lower()\<close>: the letters \<open>A\<close> to \<open>Z\<close> become \<open>a\<close> to \<open>z\<close>.\<close>

definition lower_char :: "char \<Rightarrow> char" where
  "lower_char c = (let n = of_char c :: nat in if 65 \<le> n \<and> n \<le> 90 then char_of (n + 32) else c)"

definition lower :: "string \<Rightarrow> string" where
  "lower s = map lower_char s"

text \<open>\<open>sub in s\<close>: \<open>sub\<close> occurs in \<open>s\<close> as a contiguous run.\<close>

fun py_in :: "string \<Rightarrow> string \<Rightarrow> bool" where
  "py_in sub [] = (sub = [])"
| "py_in sub (c # cs) = (prefix sub (c # cs) \<or> py_in sub cs)"

section \<open>Family A normalizer: field detection (F370Convert.py)\<close>

text \<open>
  \<open>find_matching_column(columns, keywords)\<close>: the outer loop scans the columns in order,
  the inner loop the keywords; the first column for which some keyword's lower-cased form
  occurs in the lower-cased, stripped column name is returned as it is; \<open>None\<close> when the
  loops end.
\<close>

definition keyword_matches :: "string list \<Rightarrow> string \<Rightarrow> bool" where
  "keyword_matches keywords col = list_ex (\<lambda>keyword. py_in (lower keyword) (strip (lower col))) keywords"

fun find_matching_column :: "string list \<Rightarrow> string list \<Rightarrow> string option" where
  "find_matching_column [] keywords = None"
| "find_matching_column (col # columns) keywords =
     (if keyword_matches keywords col then Some col else find_matching_column columns keywords)"

section \<open>Python floats\<close>

text \<open>
  A Python \<open>float\<close> is modelled as an exact rational, \<open>inf\<close>, \<open>-inf\<close> or \<open>nan\<close>: the
  arithmetic below is IEEE arithmetic without rounding error and without overflow (the
  two signed zeros are one value). Integers met in arithmetic (the initial fee \<open>0\<close>,
  integer cells) are the same rationals.
\<close>

datatype pyfloat = Fin rat | PInf | NInf | NaN

datatype error = ValueError | KeyError | TypeError | AttributeError | IndexError | ZeroDivisionError

text \<open>The sign of a value that is not \<open>nan\<close>.\<close>

fun fsgn :: "pyfloat \<Rightarrow> int" where
  "fsgn (Fin q) = (if q < 0 then -1 else if q = 0 then 0 else 1)"
| "fsgn PInf = 1"
| "fsgn NInf = -1"
| "fsgn NaN = 0"

definition signed_inf :: "int \<Rightarrow> pyfloat" where
  "signed_inf s = (if s = 0 then NaN else if 0 < s then PInf else NInf)"

text \<open>\<open>a + b\<close>.\<close>

fun fadd :: "pyfloat \<Rightarrow> pyfloat \<Rightarrow> pyfloat" where
  "fadd (Fin x) (Fin y) = Fin (x + y)"
| "fadd NaN b = NaN"
| "fadd a NaN = NaN"
| "fadd PInf NInf = NaN"
| "fadd NInf PInf = NaN"
| "fadd PInf b = PInf"
| "fadd NInf b = NInf"
| "fadd a PInf = PInf"
| "fadd a NInf = NInf"

text \<open>\<open>a * b\<close>: an infinity times zero is \<open>nan\<close>.\<close>

fun fmul :: "pyfloat \<Rightarrow> pyfloat \<Rightarrow> pyfloat" where
  "fmul (Fin x) (Fin y) = Fin (x * y)"
| "fmul NaN b = NaN"
| "fmul a NaN = NaN"
| "fmul a b = signed_inf (fsgn a * fsgn b)"

text \<open>\<open>a / b\<close> on Python floats: a zero divisor raises \<open>ZeroDivisionError\<close>.\<close>

fun py_truediv :: "pyfloat \<Rightarrow> pyfloat \<Rightarrow> error + pyfloat" where
  "py_truediv a (Fin y) =
     (if y = 0 then Inl ZeroDivisionError
      else case a of Fin x \<Rightarrow> Inr (Fin (x / y)) | NaN \<Rightarrow> Inr NaN
        | _ \<Rightarrow> Inr (signed_inf (fsgn a * fsgn (Fin y))))"
| "py_truediv a NaN = Inr NaN"
| "py_truediv (Fin x) b = Inr (Fin 0)"
| "py_truediv NaN b = Inr NaN"
| "py_truediv a b = Inr NaN"

text \<open>Rounding a rational to the nearest integer, ties to the even one.\<close>

definition round_half_even :: "rat \<Rightarrow> int" where
  "round_half_even q =
     (let n = \<lfloor>q\<rfloor>; r = q - of_int n
      in if r < 1 / 2 then n else if 1 / 2 < r then n + 1 else if even n then n else n + 1)"

text \<open>\<open>round(x, 2)\<close>: two decimals; \<open>inf\<close> and \<open>nan\<close> are returned as they are.\<close>

fun round2 :: "pyfloat \<Rightarrow> pyfloat" where
  "round2 (Fin q) = Fin (of_int (round_half_even (q * 100)) / 100)"
| "round2 x = x"

text \<open>Truth value of a float: every value but zero is true, \<open>nan\<close> included.\<close>

fun float_truthy :: "pyfloat \<Rightarrow> bool" where
  "float_truthy (Fin q) = (q \<noteq> 0)"
| "float_truthy x = True"

subsection \<open>The \<open>float(str)\<close> constructor\<close>

definition is_digit :: "char \<Rightarrow> bool" where
  "is_digit c = (let n = of_char c :: nat in 48 \<le> n \<and> n \<le> 57)"

definition digit_val :: "char \<Rightarrow> int" where
  "digit_val c = of_char c - 48"

text \<open>
  A run of digits in which single underscores may stand between two digits
  (\<open>digitpart\<close> of the grammar of \<open>float\<close>); returns the digits and the rest.
\<close>

fun take_digits :: "int list \<Rightarrow> string \<Rightarrow> int list \<times> string" where
  "take_digits acc [] = (rev acc, [])"
| "take_digits acc (c # cs) =
     (if is_digit c then take_digits (digit_val c # acc) cs
      else if c = CHR ''_'' \<and> acc \<noteq> [] \<and> (case cs of [] \<Rightarrow> False | d # _ \<Rightarrow> is_digit d)
      then take_digits acc cs
      else (rev acc, c # cs))"

definition digits_value :: "int list \<Rightarrow> int" where
  "digits_value ds = foldl (\<lambda>a d. 10 * a + d) 0 ds"

definition take_sign :: "string \<Rightarrow> int \<times> string" where
  "take_sign s =
     (case s of [] \<Rightarrow> (1, [])
      | c # cs \<Rightarrow> if c = CHR ''+'' then (1, cs) else if c = CHR ''-'' then (-1, cs) else (1, s))"

definition pow10 :: "int \<Rightarrow> rat" where
  "pow10 e = (if 0 \<le> e then 10 ^ nat e else 1 / 10 ^ nat (- e))"

text \<open>The exponent part: nothing, or \<open>e\<close> or \<open>E\<close>, an optional sign and a digit part to the end.\<close>

definition parse_exponent :: "string \<Rightarrow> int option" where
  "parse_exponent s =
     (case s of [] \<Rightarrow> Some 0
      | c # cs \<Rightarrow>
          if c = CHR ''e'' \<or> c = CHR ''E'' then
            (case take_sign cs of (sg, r) \<Rightarrow>
              (case take_digits [] r of (ds, rest) \<Rightarrow>
                if ds \<noteq> [] \<and> rest = [] then Some (sg * digits_value ds) else None))
          else None)"

text \<open>
  \<open>float(s)\<close>: surrounding whitespace is dropped; an optional sign; then \<open>inf\<close>,
  \<open>infinity\<close> or \<open>nan\<close> in any case, or a decimal number with digits before or after an
  optional point and an optional exponent. \<open>None\<close> stands for \<open>ValueError\<close>.
\<close>

definition py_float :: "string \<Rightarrow> pyfloat option" where
  "py_float s =
     (case take_sign (strip s) of (sg, r) \<Rightarrow>
        if lower r = ''inf'' \<or> lower r = ''infinity'' then Some (signed_inf sg)
        else if lower r = ''nan'' then Some NaN
        else
          (case take_digits [] r of (ip, r1) \<Rightarrow>
            (case (case r1 of [] \<Rightarrow> ([], r1)
                    | c # cs \<Rightarrow> if c = CHR ''.'' then take_digits [] cs else ([], r1)) of
               (fp, r2) \<Rightarrow>
                 if ip = [] \<and> fp = [] then None
                 else
                   (case parse_exponent r2 of None \<Rightarrow> None
                    | Some e \<Rightarrow>
                        Some (Fin (of_int sg
                          * (of_int (digits_value ip) + of_int (digits_value fp) / 10 ^ length fp)
                          * pow10 e))))))"

section \<open>Tables read by pandas\<close>

text \<open>
  A cell of a table is a number (a float, \<open>nan\<close> for a missing value) or a string. A
  \<open>DataFrame\<close> has its column names in order (\<open>read_csv\<close> makes them distinct) and its
  rows; a row gives the cell of each column, and is read only at the names of
  \<open>columns\<close>.
\<close>

datatype cell = Num pyfloat | Str string

record dataframe =
  columns :: "string list"
  rows :: "(string \<Rightarrow> cell) list"

text \<open>\<open>row[name]\<close>: \<open>KeyError\<close> when the table has no such column.\<close>

definition row_get :: "string list \<Rightarrow> (string \<Rightarrow> cell) \<Rightarrow> string \<Rightarrow> error + cell" where
  "row_get cols row name = (if name \<in> set cols then Inr (row name) else Inl KeyError)"

text \<open>\<open>pd.notna(v)\<close>.\<close>

fun notna :: "cell \<Rightarrow> bool" where
  "notna (Num NaN) = False"
| "notna v = True"

text \<open>\<open>v > 0\<close>: a string cannot be compared with a number (\<open>TypeError\<close>).\<close>

fun gt_zero :: "cell \<Rightarrow> error + bool" where
  "gt_zero (Str s) = Inl TypeError"
| "gt_zero (Num (Fin q)) = Inr (0 < q)"
| "gt_zero (Num PInf) = Inr True"
| "gt_zero (Num x) = Inr False"

section \<open>Cost engine (printCalculator.py)\<close>

text \<open>The price table: \<open>costs[(printer, material)] = {"volume": ..., "cost": ...}\<close>.\<close>

record price_entry =
  volume :: "pyfloat option"
  cost :: pyfloat

type_synonym material_costs = "string \<times> string \<rightharpoonup> price_entry"

text \<open>One row of the output table, its fields named after the output's columns.\<close>

record cost_result =
  Print_Job :: nat
  Printer_Type :: string
  Filament_Fee :: pyfloat
  Flat_Fee :: pyfloat
  Total_Fee :: pyfloat
  Company_Name :: cell

text \<open>The fixed (material, column) pairs of each printer family.\<close>

definition f370_materials :: "(string \<times> string) list" where
  "f370_materials =
     [(''PC-ABS BLK'', ''ABS in cm3''),
      (''TPU 92A - Black'', ''TPU 92A - Black''),
      (''QSR support'', ''QSR support'')]"

definition j826_materials :: "(string \<times> string) list" where
  "j826_materials =
     [(''DraftGrey'', ''DraftGrey (g)''),
      (''VeroUltraWhite'', ''VeroUltraWhite (g)''),
      (''VeroBlackPlus'', ''VeroBlackPlus (g)''),
      (''SUP706'', ''SUP706 (g)'')]"

text \<open>
  The body of the loop over the materials: the fee so far, updated for one
  (material, column) pair.
\<close>

definition add_material ::
  "string \<Rightarrow> material_costs \<Rightarrow> string list \<Rightarrow> (string \<Rightarrow> cell) \<Rightarrow> pyfloat
     \<Rightarrow> string \<times> string \<Rightarrow> error + pyfloat" where
  "add_material printer mc cols row fee pair =
     (case pair of (material, col_name) \<Rightarrow>
        if col_name \<in> set cols then
          (let v = row col_name in
           if notna v then
             (case gt_zero v of
                Inl e \<Rightarrow> Inl e
              | Inr False \<Rightarrow> Inr fee
              | Inr True \<Rightarrow>
                  (case mc (printer, material) of
                     None \<Rightarrow> Inr fee
                   | Some entry \<Rightarrow>
                       (case volume entry of
                          None \<Rightarrow> Inr fee
                        | Some ref_volume \<Rightarrow>
                            if float_truthy ref_volume then
                              (case py_truediv (cost entry) ref_volume of
                                 Inl e \<Rightarrow> Inl e
                               | Inr cost_per_unit \<Rightarrow>
                                   Inr (fadd fee
                                     (fmul (case v of Num x \<Rightarrow> x | Str s \<Rightarrow> NaN) cost_per_unit)))
                            else Inr fee)))
           else Inr fee)
        else Inr fee)"

fun material_loop ::
  "string \<Rightarrow> material_costs \<Rightarrow> string list \<Rightarrow> (string \<Rightarrow> cell) \<Rightarrow> pyfloat
     \<Rightarrow> (string \<times> string) list \<Rightarrow> error + pyfloat" where
  "material_loop printer mc cols row fee [] = Inr fee"
| "material_loop printer mc cols row fee (pair # pairs) =
     (case add_material printer mc cols row fee pair of
        Inl e \<Rightarrow> Inl e
      | Inr fee' \<Rightarrow> material_loop printer mc cols row fee' pairs)"

text \<open>
  The body of a loop over the rows of one family: company name first (\<open>KeyError\<close>
  without the column), then the materials, then the output row with job number \<open>job\<close>.
\<close>

definition cost_row ::
  "string \<Rightarrow> pyfloat \<Rightarrow> (string \<times> string) list \<Rightarrow> material_costs \<Rightarrow> string list
     \<Rightarrow> nat \<Rightarrow> (string \<Rightarrow> cell) \<Rightarrow> error + cost_result" where
  "cost_row printer flat pairs mc cols job row =
     (case row_get cols row ''Company Name'' of
        Inl e \<Rightarrow> Inl e
      | Inr company \<Rightarrow>
          (case material_loop printer mc cols row (Fin 0) pairs of
             Inl e \<Rightarrow> Inl e
           | Inr fee \<Rightarrow>
               Inr \<lparr>Print_Job = job, Printer_Type = printer, Filament_Fee = round2 fee,
                    Flat_Fee = flat, Total_Fee = round2 (fadd fee flat),
                    Company_Name = company\<rparr>))"

definition f370_flat_fee :: pyfloat where
  "f370_flat_fee = Fin (1625 / 100)"

definition j826_flat_fee :: pyfloat where
  "j826_flat_fee = Fin (722 / 100)"

text \<open>
  The loop over the F370 rows: \<open>iterrows\<close> gives each row with its index, which for a
  table read by \<open>read_csv\<close> is the row's position from 0; the job number is \<open>idx + 1\<close>.
\<close>

fun f370_loop ::
  "material_costs \<Rightarrow> string list \<Rightarrow> nat \<Rightarrow> cost_result list \<Rightarrow> (string \<Rightarrow> cell) list
     \<Rightarrow> error + cost_result list" where
  "f370_loop mc cols idx results [] = Inr results"
| "f370_loop mc cols idx results (row # rest) =
     (case cost_row ''F370'' f370_flat_fee f370_materials mc cols (idx + 1) row of
        Inl e \<Rightarrow> Inl e
      | Inr r \<Rightarrow> f370_loop mc cols (idx + 1) (results @ [r]) rest)"

text \<open>The loop over the J826 rows: the job number is \<open>len(results) + 1\<close>.\<close>

fun j826_loop ::
  "material_costs \<Rightarrow> string list \<Rightarrow> cost_result list \<Rightarrow> (string \<Rightarrow> cell) list
     \<Rightarrow> error + cost_result list" where
  "j826_loop mc cols results [] = Inr results"
| "j826_loop mc cols results (row # rest) =
     (case cost_row ''J826'' j826_flat_fee j826_materials mc cols (length results + 1) row of
        Inl e \<Rightarrow> Inl e
      | Inr r \<Rightarrow> j826_loop mc cols (results @ [r]) rest)"

text \<open>
  The two passes of \<open>calculate_costs\<close> over a parsed price table. An exception leaves
  the function before the output is written: \<open>Inl\<close>, and no output row.
\<close>

definition cost_rows :: "material_costs \<Rightarrow> dataframe \<Rightarrow> dataframe \<Rightarrow> error + cost_result list" where
  "cost_rows mc f370_data j826_data =
     (case f370_loop mc (columns f370_data) 0 [] (rows f370_data) of
        Inl e \<Rightarrow> Inl e
      | Inr results \<Rightarrow> j826_loop mc (columns j826_data) results (rows j826_data))"

section \<open>The filament fee in the specification's words\<close>

text \<open>
  The specification gives the fee as a sum of contributions, one per (material, column)
  pair: \<open>value * (reference_cost / reference_volume)\<close> when the column is present with a
  value above 0 and the price table has a usable entry (a reference volume that is
  neither \<open>None\<close> nor zero), and 0 otherwise. These definitions follow those words; the
  theorems compare them with \<open>material_loop\<close>.
\<close>

definition fdiv :: "pyfloat \<Rightarrow> pyfloat \<Rightarrow> pyfloat" where
  "fdiv a b = (case py_truediv a b of Inl e \<Rightarrow> NaN | Inr q \<Rightarrow> q)"

definition usable_entry :: "material_costs \<Rightarrow> string \<times> string \<Rightarrow> (pyfloat \<times> pyfloat) option" where
  "usable_entry mc key =
     (case mc key of None \<Rightarrow> None
      | Some entry \<Rightarrow>
          (case volume entry of None \<Rightarrow> None
           | Some rv \<Rightarrow> if rv = Fin 0 then None else Some (cost entry, rv)))"

definition positive_value :: "string list \<Rightarrow> (string \<Rightarrow> cell) \<Rightarrow> string \<Rightarrow> pyfloat option" where
  "positive_value cols row col_name =
     (if col_name \<in> set cols then
        (case row col_name of
           Num (Fin q) \<Rightarrow> if 0 < q then Some (Fin q) else None
         | Num PInf \<Rightarrow> Some PInf
         | _ \<Rightarrow> None)
      else None)"

definition spec_contribution ::
  "string \<Rightarrow> material_costs \<Rightarrow> string list \<Rightarrow> (string \<Rightarrow> cell) \<Rightarrow> string \<times> string \<Rightarrow> pyfloat" where
  "spec_contribution printer mc cols row pair =
     (case positive_value cols row (snd pair) of
        None \<Rightarrow> Fin 0
      | Some v \<Rightarrow>
          (case usable_entry mc (printer, fst pair) of
             None \<Rightarrow> Fin 0
           | Some (ref_cost, ref_volume) \<Rightarrow> fmul v (fdiv ref_cost ref_volume)))"


text \<open>
  The material columns a record has hold numbers (\<open>nan\<close> included), as the canonical
  schema types them.
\<close>

definition numeric_fields :: "(string \<times> string) list \<Rightarrow> string list \<Rightarrow> (string \<Rightarrow> cell) \<Rightarrow> bool" where
  "numeric_fields pairs cols row =
     list_all (\<lambda>pair. snd pair \<in> set cols \<longrightarrow> (case row (snd pair) of Num x \<Rightarrow> True | Str s \<Rightarrow> False)) pairs"

section \<open>Price table parser (printCalculator.py)\<close>

text \<open>
  The pattern \<open>(.*?); (.*?); (.*?); \$(.*)$\<close> is matched from the start of the stripped
  line by backtracking. A lazy group \<open>(.*?)\<close> followed by a literal tries the rest of
  the pattern after the shortest run first and takes one more character (any but a line
  feed) each time the rest fails; \<open>acc\<close> holds the run so far, reversed, and \<open>k\<close> is the
  rest of the pattern, applied after the literal \<open>sep\<close>.
\<close>

definition after_literal :: "string \<Rightarrow> (string \<Rightarrow> 'a option) \<Rightarrow> string \<Rightarrow> 'a option" where
  "after_literal sep k s = (if prefix sep s then k (drop (length sep) s) else None)"

fun lazy_until :: "string \<Rightarrow> (string \<Rightarrow> 'a option) \<Rightarrow> string \<Rightarrow> string \<Rightarrow> (string \<times> 'a) option" where
  "lazy_until sep k acc [] =
     (case after_literal sep k [] of Some r \<Rightarrow> Some (rev acc, r) | None \<Rightarrow> None)"
| "lazy_until sep k acc (c # cs) =
     (case after_literal sep k (c # cs) of
        Some r \<Rightarrow> Some (rev acc, r)
      | None \<Rightarrow> if c = CHR 0x0A then None else lazy_until sep k (c # acc) cs)"

text \<open>
  The last group \<open>(.*)$\<close>: every character up to a line feed, and the end of the string
  (or a final line feed) after it.
\<close>

definition greedy_to_end :: "string \<Rightarrow> string option" where
  "greedy_to_end s =
     (let g = takeWhile (\<lambda>c. c \<noteq> CHR 0x0A) s; r = dropWhile (\<lambda>c. c \<noteq> CHR 0x0A) s
      in if r = [] \<or> r = [CHR 0x0A] then Some g else None)"

text \<open>\<open>re.match\<close> of the pattern: the four groups, or \<open>None\<close>.\<close>

definition match_line :: "string \<Rightarrow> (string \<times> string \<times> string \<times> string) option" where
  "match_line s =
     lazy_until ''; '' (\<lambda>s1. lazy_until ''; '' (\<lambda>s2. lazy_until ''; $'' greedy_to_end [] s2) [] s1) [] s"

text \<open>
  \<open>re.sub(r"[^\d.]", "", volume)\<close> keeps the digits and points of the volume text;
  \<open>cost.replace(",", "")\<close> drops the commas of the cost text.
\<close>

definition volume_digits :: "string \<Rightarrow> string" where
  "volume_digits volume_text = filter (\<lambda>c. is_digit c \<or> c = CHR ''.'') volume_text"

definition without_commas :: "string \<Rightarrow> string" where
  "without_commas cost_text = filter (\<lambda>c. c \<noteq> CHR '','') cost_text"

text \<open>
  One line of the file: skipped (\<open>Inr None\<close>) when it contains \<open>**\<close>, is blank or does
  not match; otherwise the entry, with \<open>float\<close> applied to the digits and points of the
  volume (when there are any) and to the cost without commas. Neither call of \<open>float\<close>
  is guarded: a \<open>ValueError\<close> leaves the function.
\<close>

definition parse_line :: "string \<Rightarrow> error + ((string \<times> string) \<times> price_entry) option" where
  "parse_line line =
     (if py_in ''**'' line \<or> strip line = [] then Inr None
      else
        (case match_line (strip line) of
           None \<Rightarrow> Inr None
         | Some (printer, material, volume_text, cost_text) \<Rightarrow>
             (case (if volume_digits volume_text \<noteq> [] then
                      (case py_float (volume_digits volume_text) of
                         None \<Rightarrow> Inl ValueError
                       | Some x \<Rightarrow> Inr (Some x))
                    else Inr None) of
                Inl e \<Rightarrow> Inl e
              | Inr ref_volume \<Rightarrow>
                  (case py_float (without_commas cost_text) of
                     None \<Rightarrow> Inl ValueError
                   | Some ref_cost \<Rightarrow>
                       Inr (Some ((strip printer, strip material),
                                  \<lparr>volume = ref_volume, cost = ref_cost\<rparr>))))))"

text \<open>The loop over the lines of the file; a later entry replaces an earlier one of its key.\<close>

fun parse_lines :: "material_costs \<Rightarrow> string list \<Rightarrow> error + material_costs" where
  "parse_lines costs [] = Inr costs"
| "parse_lines costs (line # rest) =
     (case parse_line line of
        Inl e \<Rightarrow> Inl e
      | Inr None \<Rightarrow> parse_lines costs rest
      | Inr (Some (key, entry)) \<Rightarrow> parse_lines (costs(key \<mapsto> entry)) rest)"

definition parse_material_cost :: "string list \<Rightarrow> error + material_costs" where
  "parse_material_cost file_lines = parse_lines Map.empty file_lines"

text \<open>\<open>calculate_costs\<close>: the price table is parsed first, then the two passes run.\<close>

definition calculate_costs :: "string list \<Rightarrow> dataframe \<Rightarrow> dataframe \<Rightarrow> error + cost_result list" where
  "calculate_costs file_lines f370_data j826_data =
     (case parse_material_cost file_lines of
        Inl e \<Rightarrow> Inl e
      | Inr material_costs \<Rightarrow> cost_rows material_costs f370_data j826_data)"

section \<open>Family B normalizer (J826Convert.py)\<close>

text \<open>\<open>s.replace('h', ':')\<close>, \<open>s.replace('m', '')\<close>, \<open>s.split(':')\<close> and \<open>s.zfill(width)\<close>.\<close>

definition replace_char :: "char \<Rightarrow> char \<Rightarrow> string \<Rightarrow> string" where
  "replace_char old new s = map (\<lambda>c. if c = old then new else c) s"

definition remove_char :: "char \<Rightarrow> string \<Rightarrow> string" where
  "remove_char old s = filter (\<lambda>c. c \<noteq> old) s"

fun split_on :: "char \<Rightarrow> string \<Rightarrow> string list" where
  "split_on sep [] = [[]]"
| "split_on sep (c # cs) =
     (if c = sep then [] # split_on sep cs
      else (case split_on sep cs of [] \<Rightarrow> [[c]] | part # parts \<Rightarrow> (c # part) # parts))"

text \<open>\<open>zfill\<close> pads with zeros on the left, after a leading sign if there is one.\<close>

definition zfill :: "nat \<Rightarrow> string \<Rightarrow> string" where
  "zfill width s =
     (if width \<le> length s then s
      else (case s of
              [] \<Rightarrow> replicate width CHR ''0''
            | c # cs \<Rightarrow>
                if c = CHR ''+'' \<or> c = CHR ''-''
                then c # replicate (width - length s) CHR ''0'' @ cs
                else replicate (width - length s) CHR ''0'' @ s))"

text \<open>
  The formatting of the print time (lines 48 to 53). The two parts are read by index;
  a missing part would be an \<open>IndexError\<close>.
\<close>

definition format_print_time :: "string \<Rightarrow> error + string" where
  "format_print_time print_time =
     (if py_in ''h'' print_time \<and> py_in ''m'' print_time then
        (case split_on CHR '':'' (remove_char CHR ''m'' (replace_char CHR ''h'' CHR '':'' print_time)) of
           hours # minutes # _ \<Rightarrow> Inr (hours @ '':'' @ zfill 2 minutes)
         | _ \<Rightarrow> Inl IndexError)
      else Inr ''0:00'')"

text \<open>\<open>safe_float\<close>: \<open>float(value)\<close>, and 0 on \<open>ValueError\<close>.\<close>

definition safe_float :: "string \<Rightarrow> pyfloat" where
  "safe_float v = (case py_float v of None \<Rightarrow> Fin 0 | Some x \<Rightarrow> x)"

text \<open>
  The file is read without header into the columns \<open>Key\<close> and \<open>Value\<close>; the function
  uses the \<open>Key\<close> column only, here the list of its cells. Cells at even offsets are
  labels, each followed by its value; \<open>dict(zip(keys, values))\<close> keeps the last value of
  a label.
\<close>

fun pair_up :: "'a list \<Rightarrow> ('a \<times> 'a) list" where
  "pair_up (k # v # rest) = (k, v) # pair_up rest"
| "pair_up rest = []"

definition data_of :: "cell list \<Rightarrow> cell \<rightharpoonup> cell" where
  "data_of key_column = map_of (rev (pair_up key_column))"

text \<open>
  \<open>data.get(label, fallback).strip()\<close>: a value that is not a string (a missing value
  is the float \<open>nan\<close>) has no \<open>strip\<close>, an \<open>AttributeError\<close>.
\<close>

definition get_stripped :: "(cell \<rightharpoonup> cell) \<Rightarrow> string \<Rightarrow> string \<Rightarrow> error + string" where
  "get_stripped data label fallback =
     (case data (Str label) of
        None \<Rightarrow> Inr (strip fallback)
      | Some (Str s) \<Rightarrow> Inr (strip s)
      | Some (Num x) \<Rightarrow> Inl AttributeError)"

text \<open>
  The company name is the cell of row 15; \<open>Unknown Company\<close> when the row or the value is
  missing. \<open>str\<close> of a number is left to the parameter \<open>float_str\<close>.
\<close>

definition company_of :: "(pyfloat \<Rightarrow> string) \<Rightarrow> cell list \<Rightarrow> string" where
  "company_of float_str key_column =
     (if length key_column \<le> 14 then ''Unknown Company''
      else (case key_column ! 14 of
              Num NaN \<Rightarrow> ''Unknown Company''
            | Num x \<Rightarrow> strip (float_str x)
            | Str s \<Rightarrow> strip s))"

record j826_record =
  print_time_hmm :: string
  draft_grey :: pyfloat
  vero_ultra_white :: pyfloat
  vero_black_plus :: pyfloat
  sup706 :: pyfloat
  company_name :: string

definition convert_j826_file :: "(pyfloat \<Rightarrow> string) \<Rightarrow> cell list \<Rightarrow> error + j826_record" where
  "convert_j826_file float_str key_column =
     (let company = company_of float_str key_column; data = data_of key_column in
      case get_stripped data ''Print Time'' ''0h 0m'' of Inl e \<Rightarrow> Inl e | Inr print_time \<Rightarrow>
      case get_stripped data ''DraftGrey (g)'' ''0'' of Inl e \<Rightarrow> Inl e | Inr dg \<Rightarrow>
      case get_stripped data ''VeroUltraWhite (g)'' ''0'' of Inl e \<Rightarrow> Inl e | Inr vuw \<Rightarrow>
      case get_stripped data ''VeroBlackPlus (g)'' ''0'' of Inl e \<Rightarrow> Inl e | Inr vbp \<Rightarrow>
      case get_stripped data ''SUP706 (g)'' ''0'' of Inl e \<Rightarrow> Inl e | Inr s706 \<Rightarrow>
      case format_print_time print_time of Inl e \<Rightarrow> Inl e | Inr formatted_time \<Rightarrow>
        Inr \<lparr>print_time_hmm = formatted_time, draft_grey = safe_float dg,
             vero_ultra_white = safe_float vuw, vero_black_plus = safe_float vbp,
             sup706 = safe_float s706, company_name = company\<rparr>)"

text \<open>
  A numeric field as the specification words it: 0 when the label is absent or its
  value is not a number, the number read from the stripped value otherwise. (A value that
  is not a string gives no record; the last case is never met in one.)
\<close>

definition spec_numeric_field :: "cell list \<Rightarrow> string \<Rightarrow> pyfloat" where
  "spec_numeric_field key_column label =
     (case data_of key_column (Str label) of
        None \<Rightarrow> Fin 0
      | Some (Str s) \<Rightarrow> (case py_float (strip s) of None \<Rightarrow> Fin 0 | Some x \<Rightarrow> x)
      | Some (Num x) \<Rightarrow> Fin 0)"

section \<open>Family A normalizer: files (F370Convert.py)\<close>

text \<open>What the function prints, in order.\<close>

datatype diagnostic =
    Processing_file string
  | Error_reading_file string string
  | Warning_no_company_column string
  | Warning_missing_critical_columns string
  | Detected_columns "string list"
  | Combined_dataset_saved
  | No_valid_files_processed

text \<open>
  A file of the input folder: its name and what \<open>pd.read_csv\<close> gives for it, a table
  or an exception (its message).
\<close>

record input_file =
  file_name :: string
  read_csv :: "string + dataframe"

text \<open>Truth value of a result of \<open>find_matching_column\<close>: \<open>None\<close> and the empty name are false.\<close>

definition found :: "string option \<Rightarrow> bool" where
  "found col = (case col of None \<Rightarrow> False | Some c \<Rightarrow> c \<noteq> [])"

text \<open>\<open>df[name] = ...\<close> sets a column in every row, adding it after the others when it is new.\<close>

definition set_column :: "string \<Rightarrow> ((string \<Rightarrow> cell) \<Rightarrow> cell) \<Rightarrow> dataframe \<Rightarrow> dataframe" where
  "set_column name f df =
     \<lparr>columns = (if name \<in> set (columns df) then columns df else columns df @ [name]),
      rows = map (\<lambda>r. r(name := f r)) (rows df)\<rparr>"

text \<open>\<open>fillna(0)\<close> on one cell.\<close>

fun fillna0 :: "cell \<Rightarrow> cell" where
  "fillna0 (Num NaN) = Num (Fin 0)"
| "fillna0 v = v"

text \<open>
  \<open>df.rename(columns={...})\<close>: the dictionary is given by its items in writing order,
  a repeated key keeping its last value. Where two columns get one name, the row gives
  the cell of the first of them.
\<close>

definition renamed :: "(string \<times> string) list \<Rightarrow> string \<Rightarrow> string" where
  "renamed items c = (case map_of (rev items) c of None \<Rightarrow> c | Some n \<Rightarrow> n)"

definition rename_columns :: "(string \<times> string) list \<Rightarrow> dataframe \<Rightarrow> dataframe" where
  "rename_columns items df =
     \<lparr>columns = map (renamed items) (columns df),
      rows = map (\<lambda>r n. case List.find (\<lambda>c. renamed items c = n) (columns df) of
                            None \<Rightarrow> r n | Some c \<Rightarrow> r c) (rows df)\<rparr>"

text \<open>\<open>df[names]\<close>: \<open>KeyError\<close> when a name is not a column.\<close>

definition select_columns :: "string list \<Rightarrow> dataframe \<Rightarrow> error + dataframe" where
  "select_columns names df =
     (if list_all (\<lambda>n. n \<in> set (columns df)) names
      then Inr \<lparr>columns = names, rows = rows df\<rparr> else Inl KeyError)"

text \<open>\<open>pd.concat([a, b], ignore_index=True)\<close>: the rows of \<open>a\<close>, then those of \<open>b\<close>.\<close>

definition concat_frames :: "dataframe \<Rightarrow> dataframe \<Rightarrow> dataframe" where
  "concat_frames a b =
     \<lparr>columns = columns a @ filter (\<lambda>c. c \<notin> set (columns a)) (columns b),
      rows = map (\<lambda>r n. if n \<in> set (columns a) then r n else Num NaN) (rows a)
           @ map (\<lambda>r n. if n \<in> set (columns b) then r n else Num NaN) (rows b)\<rparr>"

definition required_columns :: "string list" where
  "required_columns = [''Print Time'', ''PC-ABS BLK'', ''TPU 92A - Black'', ''QSR support'', ''Company Name'']"

text \<open>
  The body of the loop for a file that was read (lines 42 to 79): the state is the
  combined table and the messages printed so far. A file without company column, or
  without print time or support column, is skipped with its warning; any other file is
  normalized and appended.
\<close>

definition process_frame ::
  "string \<Rightarrow> dataframe \<Rightarrow> dataframe \<times> diagnostic list \<Rightarrow> error + dataframe \<times> diagnostic list" where
  "process_frame name df st =
     (case st of (combined_df, printed) \<Rightarrow>
      let company_name_col = find_matching_column (columns df) [''Company'', ''CompanyName''];
          print_time_col = find_matching_column (columns df) [''Print Time'', ''h:mm''];
          support_col = find_matching_column (columns df) [''Support'', ''QSR''];
          abs_col = find_matching_column (columns df) [''ABS''];
          tpu_col = find_matching_column (columns df) [''TPU'']
      in
        if \<not> found company_name_col then
          Inr (combined_df, printed @ [Warning_no_company_column name])
        else if \<not> (found print_time_col \<and> found support_col) then
          Inr (combined_df,
               printed @ [Warning_missing_critical_columns name, Detected_columns (columns df)])
        else
          (let df1 = set_column ''PC-ABS BLK'' (\<lambda>r. Num (Fin 0)) df;
               df2 = set_column ''TPU 92A - Black'' (\<lambda>r. Num (Fin 0)) df1;
               df3 = (if found abs_col
                      then set_column ''PC-ABS BLK'' (\<lambda>r. fillna0 (r (the abs_col))) df2 else df2);
               df4 = (if found tpu_col
                      then set_column ''TPU 92A - Black'' (\<lambda>r. fillna0 (r (the tpu_col))) df3 else df3);
               df5 = rename_columns
                       [(the company_name_col, ''Company Name''),
                        (the print_time_col, ''Print Time''),
                        (the support_col, ''QSR support'')] df4
           in case select_columns required_columns df5 of
                Inl e \<Rightarrow> Inl e
              | Inr df6 \<Rightarrow> Inr (concat_frames combined_df df6, printed)))"

text \<open>
  One file of the folder: other names are passed over; a file that cannot be read is
  reported and skipped.
\<close>

definition process_file ::
  "dataframe \<times> diagnostic list \<Rightarrow> input_file \<Rightarrow> error + dataframe \<times> diagnostic list" where
  "process_file st f =
     (case st of (combined_df, printed) \<Rightarrow>
        if py_in ''_Print_F370'' (file_name f) \<and> suffix ''.csv'' (file_name f) then
          (case read_csv f of
             Inl msg \<Rightarrow>
               Inr (combined_df,
                    printed @ [Processing_file (file_name f), Error_reading_file (file_name f) msg])
           | Inr df \<Rightarrow>
               process_frame (file_name f) df
                 (combined_df, printed @ [Processing_file (file_name f)]))
        else Inr st)"

fun process_files ::
  "dataframe \<times> diagnostic list \<Rightarrow> input_file list \<Rightarrow> error + dataframe \<times> diagnostic list" where
  "process_files st [] = Inr st"
| "process_files st (f # fs) =
     (case process_file st f of Inl e \<Rightarrow> Inl e | Inr st' \<Rightarrow> process_files st' fs)"

text \<open>\<open>process_f370_files\<close>: the loop from an empty table, then the closing message.\<close>

definition process_f370_files :: "input_file list \<Rightarrow> error + dataframe \<times> diagnostic list" where
  "process_f370_files files =
     (case process_files (\<lparr>columns = [], rows = []\<rparr>, []) files of
        Inl e \<Rightarrow> Inl e
      | Inr (combined_df, printed) \<Rightarrow>
          Inr (combined_df,
               printed @ [if rows combined_df = [] \<or> columns combined_df = []
                          then No_valid_files_processed else Combined_dataset_saved]))"

section \<open>Example data\<close>

text \<open>A canonical record with company \<open>Acme\<close> and the number 0 in every material column.\<close>

definition example_record :: "string \<Rightarrow> cell" where
  "example_record n =
     (if n = ''Company Name'' then Str ''Acme''
      else if n = ''Print Time'' \<or> n = ''Print Time (h:mm)'' then Str ''1:30''
      else Num (Fin 0))"

definition f370_columns :: "string list" where
  "f370_columns = [''Print Time'', ''PC-ABS BLK'', ''TPU 92A - Black'', ''QSR support'', ''Company Name'']"

definition j826_columns :: "string list" where
  "j826_columns =
     [''Print Time (h:mm)'', ''DraftGrey (g)'', ''VeroUltraWhite (g)'', ''VeroBlackPlus (g)'',
      ''SUP706 (g)'', ''Company Name'']"

section \<open>Properties\<close>

subsection \<open>Strings\<close>

lemma py_in_sublist: "py_in sub s \<longleftrightarrow> sublist sub s"
  by (induction s) (auto simp: sublist_Cons_right)

lemma keyword_matches_iff:
  "keyword_matches keywords col \<longleftrightarrow> (\<exists>k \<in> set keywords. sublist (lower k) (strip (lower col)))"
  by (simp add: keyword_matches_def list_ex_iff py_in_sublist)

subsection \<open>Field detection\<close>

lemma find_matching_column_find:
  "find_matching_column cols keywords = List.find (keyword_matches keywords) cols"
  by (induction cols) simp_all

text \<open>
  C8 (as the code has it). The claim compares the synonym with the field name itself; the
  code strips the lower-cased field name first (its docstring: matching "ignores
  leading/trailing spaces"). With that: the result is the first field, in declaration
  order, whose lower-cased and stripped name contains the lower-cased form of some
  synonym, and no field is returned exactly when no field name does.
\<close>

theorem find_matching_column_first_match:
  "(find_matching_column cols keywords = Some col \<longleftrightarrow>
      (\<exists>i < length cols. cols ! i = col
         \<and> (\<exists>k \<in> set keywords. sublist (lower k) (strip (lower (cols ! i))))
         \<and> (\<forall>j < i. \<not> (\<exists>k \<in> set keywords. sublist (lower k) (strip (lower (cols ! j)))))))
   \<and> (find_matching_column cols keywords = None \<longleftrightarrow>
      \<not> (\<exists>c \<in> set cols. \<exists>k \<in> set keywords. sublist (lower k) (strip (lower c))))"
  unfolding find_matching_column_find
  by (auto simp: find_Some_iff find_None_iff keyword_matches_iff)

theorem find_matching_column_first_match_witness:
  "find_matching_column [''Job'', ''QSR x'', ''Support y''] [''Support'', ''QSR''] = Some ''QSR x''
   \<and> (\<exists>i < length [''Job'', ''QSR x'', ''Support y''].
        [''Job'', ''QSR x'', ''Support y''] ! i = ''QSR x'')"
proof -
  have found: "find_matching_column [''Job'', ''QSR x'', ''Support y''] [''Support'', ''QSR''] = Some ''QSR x''"
    by code_simp
  from find_matching_column_first_match
    [of "[''Job'', ''QSR x'', ''Support y'']" "[''Support'', ''QSR'']" "''QSR x''"] found
  have "\<exists>i < length [''Job'', ''QSR x'', ''Support y''].
      [''Job'', ''QSR x'', ''Support y''] ! i = ''QSR x''"
    by blast
  with found show ?thesis
    by blast
qed

text \<open>
  The claim as stated fails: the field name \<open>ab \<close> contains the synonym \<open>b \<close> as a
  substring, in any case, and no field is returned, since the name is stripped to \<open>ab\<close>
  before the test.
\<close>

theorem find_matching_column_strips_counterexample:
  "find_matching_column [''ab ''] [''b ''] = None \<and> sublist (lower ''b '') (lower ''ab '')"
  by code_simp

subsection \<open>Cost engine\<close>

lemma fadd_zero_right: "fadd fee (Fin 0) = fee"
  by (cases fee) simp_all

lemma float_truthy_iff: "float_truthy x \<longleftrightarrow> x \<noteq> Fin 0"
  by (cases x) simp_all

lemma py_truediv_truthy: "float_truthy b \<Longrightarrow> py_truediv a b = Inr (fdiv a b)"
  by (cases b; cases a) (simp_all add: fdiv_def)

lemma add_material_absent:
  "col_name \<notin> set cols \<Longrightarrow> add_material printer mc cols row fee (material, col_name) = Inr fee"
  by (simp add: add_material_def Let_def)

lemma spec_contribution_absent:
  "col_name \<notin> set cols \<Longrightarrow> spec_contribution printer mc cols row (material, col_name) = Fin 0"
  by (simp add: spec_contribution_def positive_value_def)

lemma add_material_Num:
  assumes "col_name \<in> set cols" and "row col_name = Num x"
  shows "add_material printer mc cols row fee (material, col_name)
    = Inr (fadd fee (spec_contribution printer mc cols row (material, col_name)))"
proof (cases x)
  case (Fin q)
  with assms show ?thesis
    by (auto simp: add_material_def spec_contribution_def positive_value_def usable_entry_def
        fadd_zero_right float_truthy_iff py_truediv_truthy split: option.splits)
next
  case PInf
  with assms show ?thesis
    by (auto simp: add_material_def spec_contribution_def positive_value_def usable_entry_def
        fadd_zero_right float_truthy_iff py_truediv_truthy split: option.splits)
next
  case NInf
  with assms show ?thesis
    by (simp add: add_material_def spec_contribution_def positive_value_def fadd_zero_right)
next
  case NaN
  with assms show ?thesis
    by (simp add: add_material_def spec_contribution_def positive_value_def fadd_zero_right)
qed

lemma add_material_numeric:
  assumes "snd pair \<in> set cols \<longrightarrow> (\<exists>x. row (snd pair) = Num x)"
  shows "add_material printer mc cols row fee pair = Inr (fadd fee (spec_contribution printer mc cols row pair))"
proof -
  obtain material col_name where pair: "pair = (material, col_name)" by (cases pair)
  show ?thesis
  proof (cases "col_name \<in> set cols")
    case False
    then show ?thesis
      unfolding pair by (simp add: add_material_absent spec_contribution_absent fadd_zero_right)
  next
    case True
    with assms pair obtain x where "row col_name = Num x" by auto
    with True show ?thesis unfolding pair by (rule add_material_Num)
  qed
qed

lemma material_loop_numeric:
  "numeric_fields pairs cols row \<Longrightarrow>
   material_loop printer mc cols row fee pairs
     = Inr (foldl fadd fee (map (spec_contribution printer mc cols row) pairs))"
proof (induction pairs arbitrary: fee)
  case Nil
  then show ?case by simp
next
  case (Cons pair pairs)
  from Cons.prems have p: "snd pair \<in> set cols \<longrightarrow> (\<exists>x. row (snd pair) = Num x)"
    and rest: "numeric_fields pairs cols row"
    by (auto simp: numeric_fields_def split: cell.splits)
  have "add_material printer mc cols row fee pair
      = Inr (fadd fee (spec_contribution printer mc cols row pair))"
    using p by (rule add_material_numeric)
  then show ?case
    using Cons.IH[OF rest] by simp
qed


lemma material_loop_cong:
  assumes "\<And>material col_name. (material, col_name) \<in> set pairs \<Longrightarrow>
      row col_name = row' col_name \<and> mc (printer, material) = mc' (printer, material)"
  shows "material_loop printer mc cols row fee pairs = material_loop printer mc' cols row' fee pairs"
  using assms
proof (induction pairs arbitrary: fee)
  case Nil
  then show ?case by simp
next
  case (Cons pair pairs)
  obtain material col_name where pair: "pair = (material, col_name)" by (cases pair)
  have r: "row col_name = row' col_name" and m: "mc (printer, material) = mc' (printer, material)"
    using Cons.prems[of material col_name] pair by simp_all
  have step: "add_material printer mc cols row fee pair = add_material printer mc' cols row' fee pair"
    unfolding pair add_material_def prod.case r m by (rule refl)
  have rest: "material_loop printer mc cols row fee' pairs = material_loop printer mc' cols row' fee' pairs"
    for fee'
    by (rule Cons.IH) (use Cons.prems in auto)
  show ?case
    by (simp add: step rest split: sum.splits)
qed



text \<open>
  C1. A Family A canonical record has exactly the columns \<open>Print Time\<close>, \<open>PC-ABS BLK\<close>,
  \<open>TPU 92A - Black\<close>, \<open>QSR support\<close> and \<open>Company Name\<close>. The engine reads the ABS volume
  from a column \<open>ABS in cm3\<close>, which such a record does not have: the PC-ABS BLK step
  leaves the fee as it is, the fee is what the TPU and support steps alone give, and it
  depends neither on the record's \<open>PC-ABS BLK\<close> value nor on the price of PC-ABS BLK.
\<close>

theorem f370_abs_never_contributes:
  assumes "set cols = {''Print Time'', ''PC-ABS BLK'', ''TPU 92A - Black'', ''QSR support'', ''Company Name''}"
  shows "add_material ''F370'' mc cols row fee (''PC-ABS BLK'', ''ABS in cm3'') = Inr fee
    \<and> material_loop ''F370'' mc cols row fee f370_materials
        = material_loop ''F370'' mc cols row fee
            [(''TPU 92A - Black'', ''TPU 92A - Black''), (''QSR support'', ''QSR support'')]
    \<and> material_loop ''F370'' (mc((''F370'', ''PC-ABS BLK'') := entry)) cols
          (row(''PC-ABS BLK'' := v)) fee f370_materials
        = material_loop ''F370'' mc cols row fee f370_materials"
proof -
  from assms have absent: "''ABS in cm3'' \<notin> set cols"
    by simp
  have step: "add_material ''F370'' mc' cols row' fee' (''PC-ABS BLK'', ''ABS in cm3'') = Inr fee'"
    for mc' row' fee'
    using absent by (rule add_material_absent)
  have same: "material_loop ''F370'' (mc((''F370'', ''PC-ABS BLK'') := entry)) cols
        (row(''PC-ABS BLK'' := v)) fee
        [(''TPU 92A - Black'', ''TPU 92A - Black''), (''QSR support'', ''QSR support'')]
      = material_loop ''F370'' mc cols row fee
        [(''TPU 92A - Black'', ''TPU 92A - Black''), (''QSR support'', ''QSR support'')]"
    by (rule material_loop_cong) auto
  show ?thesis
    using same by (simp add: f370_materials_def step)
qed

theorem f370_abs_never_contributes_witness:
  "add_material ''F370''
      [(''F370'', ''PC-ABS BLK'') \<mapsto> \<lparr>volume = Some (Fin 100), cost = Fin 50\<rparr>]
      [''Print Time'', ''PC-ABS BLK'', ''TPU 92A - Black'', ''QSR support'', ''Company Name'']
      (\<lambda>n. if n = ''PC-ABS BLK'' then Num (Fin 10) else Num (Fin 0)) (Fin 0)
      (''PC-ABS BLK'', ''ABS in cm3'') = Inr (Fin 0)"
proof -
  have "set [''Print Time'', ''PC-ABS BLK'', ''TPU 92A - Black'', ''QSR support'', ''Company Name'']
      = {''Print Time'', ''PC-ABS BLK'', ''TPU 92A - Black'', ''QSR support'', ''Company Name''}"
    by simp
  from f370_abs_never_contributes [OF this] show ?thesis
    by blast
qed

lemma cost_row_fields:
  "cost_row printer flat pairs mc cols job row = Inr r \<Longrightarrow>
   Print_Job r = job \<and> Printer_Type r = printer \<and> Flat_Fee r = flat"
  by (auto simp: cost_row_def split: sum.splits)

lemma cost_row_no_company:
  "''Company Name'' \<notin> set cols \<Longrightarrow> cost_row printer flat pairs mc cols job row = Inl KeyError"
  by (simp add: cost_row_def row_get_def)

lemma f370_loop_result:
  "f370_loop mc cols idx results rws = Inr rs \<Longrightarrow>
   \<exists>new. rs = results @ new \<and> length new = length rws
     \<and> (\<forall>i < length new. Print_Job (new ! i) = idx + 1 + i
           \<and> Printer_Type (new ! i) = ''F370'' \<and> Flat_Fee (new ! i) = f370_flat_fee)"
proof (induction rws arbitrary: idx results)
  case Nil
  then show ?case by simp
next
  case (Cons row rws)
  from Cons.prems obtain r where
    r: "cost_row ''F370'' f370_flat_fee f370_materials mc cols (idx + 1) row = Inr r"
    and rest: "f370_loop mc cols (idx + 1) (results @ [r]) rws = Inr rs"
    by (auto split: sum.splits)
  from Cons.IH[OF rest] obtain new where
    new: "rs = (results @ [r]) @ new" "length new = length rws"
      "\<forall>i < length new. Print_Job (new ! i) = idx + 1 + 1 + i
           \<and> Printer_Type (new ! i) = ''F370'' \<and> Flat_Fee (new ! i) = f370_flat_fee"
    by blast
  have "\<forall>i < length (r # new). Print_Job ((r # new) ! i) = idx + 1 + i
           \<and> Printer_Type ((r # new) ! i) = ''F370'' \<and> Flat_Fee ((r # new) ! i) = f370_flat_fee"
    using cost_row_fields[OF r] new(3) by (auto simp: nth_Cons split: nat.splits)
  with new(1,2) show ?case
    by (intro exI[of _ "r # new"]) simp
qed

lemma j826_loop_result:
  "j826_loop mc cols results rws = Inr rs \<Longrightarrow>
   \<exists>new. rs = results @ new \<and> length new = length rws
     \<and> (\<forall>i < length new. Print_Job (new ! i) = length results + 1 + i
           \<and> Printer_Type (new ! i) = ''J826'' \<and> Flat_Fee (new ! i) = j826_flat_fee)"
proof (induction rws arbitrary: results)
  case Nil
  then show ?case by simp
next
  case (Cons row rws)
  from Cons.prems obtain r where
    r: "cost_row ''J826'' j826_flat_fee j826_materials mc cols (length results + 1) row = Inr r"
    and rest: "j826_loop mc cols (results @ [r]) rws = Inr rs"
    by (auto split: sum.splits)
  from Cons.IH[OF rest] obtain new where
    new: "rs = (results @ [r]) @ new" "length new = length rws"
      "\<forall>i < length new. Print_Job (new ! i) = length (results @ [r]) + 1 + i
           \<and> Printer_Type (new ! i) = ''J826'' \<and> Flat_Fee (new ! i) = j826_flat_fee"
    by blast
  have "\<forall>i < length (r # new). Print_Job ((r # new) ! i) = length results + 1 + i
           \<and> Printer_Type ((r # new) ! i) = ''J826'' \<and> Flat_Fee ((r # new) ! i) = j826_flat_fee"
    using cost_row_fields[OF r] new(3) by (auto simp: nth_Cons split: nat.splits)
  with new(1,2) show ?case
    by (intro exI[of _ "r # new"]) simp
qed

lemma cost_rows_shape:
  assumes "cost_rows mc f370_data j826_data = Inr rs"
  shows "\<exists>ra rb. rs = ra @ rb \<and> length ra = length (rows f370_data)
     \<and> length rb = length (rows j826_data)
     \<and> (\<forall>i < length ra. Print_Job (ra ! i) = i + 1
           \<and> Printer_Type (ra ! i) = ''F370'' \<and> Flat_Fee (ra ! i) = f370_flat_fee)
     \<and> (\<forall>i < length rb. Print_Job (rb ! i) = length ra + i + 1
           \<and> Printer_Type (rb ! i) = ''J826'' \<and> Flat_Fee (rb ! i) = j826_flat_fee)"
proof -
  from assms obtain ra where
    a: "f370_loop mc (columns f370_data) 0 [] (rows f370_data) = Inr ra"
    and b: "j826_loop mc (columns j826_data) ra (rows j826_data) = Inr rs"
    by (auto simp: cost_rows_def split: sum.splits)
  from f370_loop_result[OF a] have ra: "length ra = length (rows f370_data)"
    "\<forall>i < length ra. Print_Job (ra ! i) = i + 1
           \<and> Printer_Type (ra ! i) = ''F370'' \<and> Flat_Fee (ra ! i) = f370_flat_fee"
    by auto
  from j826_loop_result[OF b] obtain rb where rb: "rs = ra @ rb" "length rb = length (rows j826_data)"
    "\<forall>i < length rb. Print_Job (rb ! i) = length ra + 1 + i
           \<and> Printer_Type (rb ! i) = ''J826'' \<and> Flat_Fee (rb ! i) = j826_flat_fee"
    by blast
  from ra rb show ?thesis
    by (intro exI[of _ ra] exI[of _ rb]) simp
qed

lemma cost_rows_job_numbers:
  assumes "cost_rows mc f370_data j826_data = Inr rs"
  shows "map Print_Job rs = [1 ..< length rs + 1]"
proof -
  from cost_rows_shape[OF assms] obtain ra rb where s: "rs = ra @ rb"
     "\<forall>i < length ra. Print_Job (ra ! i) = i + 1
           \<and> Printer_Type (ra ! i) = ''F370'' \<and> Flat_Fee (ra ! i) = f370_flat_fee"
     "\<forall>i < length rb. Print_Job (rb ! i) = length ra + i + 1
           \<and> Printer_Type (rb ! i) = ''J826'' \<and> Flat_Fee (rb ! i) = j826_flat_fee"
    by blast
  have all: "\<forall>i < length rs. Print_Job (rs ! i) = i + 1"
    using s by (auto simp: nth_append)
  show ?thesis
  proof (rule nth_equalityI)
    show "length (map Print_Job rs) = length [1 ..< length rs + 1]"
      by (simp del: upt_Suc)
  next
    fix i
    assume "i < length (map Print_Job rs)"
    then have "i < length rs"
      by simp
    with all show "map Print_Job rs ! i = [1 ..< length rs + 1] ! i"
      by (simp del: upt_Suc)
  qed
qed

lemma round2_examples:
  "round2 (Fin 0) = Fin 0"
  "round2 (Fin (65 / 4)) = Fin (65 / 4)"
  "round2 (Fin (361 / 50)) = Fin (361 / 50)"
  by code_simp+

lemma cost_rows_example:
  "cost_rows mc \<lparr>columns = f370_columns, rows = [example_record, example_record]\<rparr>
     \<lparr>columns = j826_columns, rows = [example_record]\<rparr>
   = Inr [\<lparr>Print_Job = 1, Printer_Type = ''F370'', Filament_Fee = Fin 0, Flat_Fee = Fin (1625 / 100),
            Total_Fee = Fin (1625 / 100), Company_Name = Str ''Acme''\<rparr>,
          \<lparr>Print_Job = 2, Printer_Type = ''F370'', Filament_Fee = Fin 0, Flat_Fee = Fin (1625 / 100),
            Total_Fee = Fin (1625 / 100), Company_Name = Str ''Acme''\<rparr>,
          \<lparr>Print_Job = 3, Printer_Type = ''J826'', Filament_Fee = Fin 0, Flat_Fee = Fin (722 / 100),
            Total_Fee = Fin (722 / 100), Company_Name = Str ''Acme''\<rparr>]"
  by (simp add: cost_rows_def cost_row_def row_get_def add_material_def f370_materials_def
      j826_materials_def f370_flat_fee_def j826_flat_fee_def example_record_def f370_columns_def
      j826_columns_def round2_examples del: round2.simps)

text \<open>
  C5. In the engine's output all F370 rows come before all J826 rows, one row per input
  record; the job numbers are 1, 2, ... across both families; the flat fee is 16.25 on
  every F370 row and 7.22 on every J826 row. Two Family A records without material give
  rows with fee 0, total 16.25 and job numbers 1 and 2, and a Family B record after them
  gets job number 3 with flat fee 7.22.
\<close>

theorem cost_rows_order_numbering_fees:
  "(cost_rows mc f370_data j826_data = Inr rs \<longrightarrow>
      (\<exists>ra rb. rs = ra @ rb
         \<and> length ra = length (rows f370_data) \<and> length rb = length (rows j826_data)
         \<and> (\<forall>r \<in> set ra. Printer_Type r = ''F370'' \<and> Flat_Fee r = Fin (1625 / 100))
         \<and> (\<forall>r \<in> set rb. Printer_Type r = ''J826'' \<and> Flat_Fee r = Fin (722 / 100)))
      \<and> map Print_Job rs = [1 ..< length rs + 1])
   \<and> cost_rows mc \<lparr>columns = f370_columns, rows = [example_record, example_record]\<rparr>
        \<lparr>columns = j826_columns, rows = [example_record]\<rparr>
      = Inr [\<lparr>Print_Job = 1, Printer_Type = ''F370'', Filament_Fee = Fin 0, Flat_Fee = Fin (1625 / 100),
               Total_Fee = Fin (1625 / 100), Company_Name = Str ''Acme''\<rparr>,
             \<lparr>Print_Job = 2, Printer_Type = ''F370'', Filament_Fee = Fin 0, Flat_Fee = Fin (1625 / 100),
               Total_Fee = Fin (1625 / 100), Company_Name = Str ''Acme''\<rparr>,
             \<lparr>Print_Job = 3, Printer_Type = ''J826'', Filament_Fee = Fin 0, Flat_Fee = Fin (722 / 100),
               Total_Fee = Fin (722 / 100), Company_Name = Str ''Acme''\<rparr>]"
proof (intro conjI impI)
  assume ok: "cost_rows mc f370_data j826_data = Inr rs"
  from cost_rows_shape[OF ok] obtain ra rb where s: "rs = ra @ rb"
    "length ra = length (rows f370_data)" "length rb = length (rows j826_data)"
    "\<forall>i < length ra. Print_Job (ra ! i) = i + 1
           \<and> Printer_Type (ra ! i) = ''F370'' \<and> Flat_Fee (ra ! i) = f370_flat_fee"
    "\<forall>i < length rb. Print_Job (rb ! i) = length ra + i + 1
           \<and> Printer_Type (rb ! i) = ''J826'' \<and> Flat_Fee (rb ! i) = j826_flat_fee"
    by blast
  have a: "\<forall>r \<in> set ra. Printer_Type r = ''F370'' \<and> Flat_Fee r = Fin (1625 / 100)"
    using s(4) by (auto simp: in_set_conv_nth f370_flat_fee_def)
  have b: "\<forall>r \<in> set rb. Printer_Type r = ''J826'' \<and> Flat_Fee r = Fin (722 / 100)"
    using s(5) by (auto simp: in_set_conv_nth j826_flat_fee_def)
  from s(1-3) a b
  show "\<exists>ra rb. rs = ra @ rb
         \<and> length ra = length (rows f370_data) \<and> length rb = length (rows j826_data)
         \<and> (\<forall>r \<in> set ra. Printer_Type r = ''F370'' \<and> Flat_Fee r = Fin (1625 / 100))
         \<and> (\<forall>r \<in> set rb. Printer_Type r = ''J826'' \<and> Flat_Fee r = Fin (722 / 100))"
    by blast
  from ok show "map Print_Job rs = [1 ..< length rs + 1]"
    by (rule cost_rows_job_numbers)
next
  show "cost_rows mc \<lparr>columns = f370_columns, rows = [example_record, example_record]\<rparr>
        \<lparr>columns = j826_columns, rows = [example_record]\<rparr>
      = Inr [\<lparr>Print_Job = 1, Printer_Type = ''F370'', Filament_Fee = Fin 0, Flat_Fee = Fin (1625 / 100),
               Total_Fee = Fin (1625 / 100), Company_Name = Str ''Acme''\<rparr>,
             \<lparr>Print_Job = 2, Printer_Type = ''F370'', Filament_Fee = Fin 0, Flat_Fee = Fin (1625 / 100),
               Total_Fee = Fin (1625 / 100), Company_Name = Str ''Acme''\<rparr>,
             \<lparr>Print_Job = 3, Printer_Type = ''J826'', Filament_Fee = Fin 0, Flat_Fee = Fin (722 / 100),
               Total_Fee = Fin (722 / 100), Company_Name = Str ''Acme''\<rparr>]"
    by (rule cost_rows_example)
qed

theorem cost_rows_order_numbering_fees_witness:
  "(\<exists>rs. cost_rows Map.empty \<lparr>columns = f370_columns, rows = [example_record, example_record]\<rparr>
        \<lparr>columns = j826_columns, rows = [example_record]\<rparr> = Inr rs
      \<and> map Print_Job rs = [1 ..< length rs + 1] \<and> length rs = 3)"
proof -
  let ?a = "\<lparr>columns = f370_columns, rows = [example_record, example_record]\<rparr>"
  let ?b = "\<lparr>columns = j826_columns, rows = [example_record]\<rparr>"
  obtain rs where rs: "cost_rows Map.empty ?a ?b = Inr rs" and len: "length rs = 3"
    using cost_rows_example[of Map.empty] by simp
  from cost_rows_order_numbering_fees [of Map.empty ?a ?b rs] rs
  have "map Print_Job rs = [1 ..< length rs + 1]"
    by blast
  with rs len show ?thesis
    by blast
qed

lemma cost_row_ok:
  "''Company Name'' \<in> set cols \<Longrightarrow> numeric_fields pairs cols row \<Longrightarrow>
   \<exists>r. cost_row printer flat pairs mc cols job row = Inr r"
  by (simp add: cost_row_def row_get_def material_loop_numeric)

lemma f370_loop_ok:
  "rws = [] \<or> ''Company Name'' \<in> set cols \<Longrightarrow>
   \<forall>row \<in> set rws. numeric_fields f370_materials cols row \<Longrightarrow>
   \<exists>rs. f370_loop mc cols idx results rws = Inr rs"
proof (induction rws arbitrary: idx results)
  case Nil
  then show ?case by simp
next
  case (Cons row rws)
  then have c: "''Company Name'' \<in> set cols" and n: "numeric_fields f370_materials cols row"
    by simp_all
  from cost_row_ok[OF c n] obtain r where
    "cost_row ''F370'' f370_flat_fee f370_materials mc cols (idx + 1) row = Inr r"
    by blast
  moreover have "\<exists>rs. f370_loop mc cols (idx + 1) (results @ [r]) rws = Inr rs"
    by (rule Cons.IH) (use c Cons.prems in simp_all)
  ultimately show ?case
    by simp
qed

lemma j826_loop_ok:
  "rws = [] \<or> ''Company Name'' \<in> set cols \<Longrightarrow>
   \<forall>row \<in> set rws. numeric_fields j826_materials cols row \<Longrightarrow>
   \<exists>rs. j826_loop mc cols results rws = Inr rs"
proof (induction rws arbitrary: results)
  case Nil
  then show ?case by simp
next
  case (Cons row rws)
  then have c: "''Company Name'' \<in> set cols" and n: "numeric_fields j826_materials cols row"
    by simp_all
  from cost_row_ok[OF c n] obtain r where
    "cost_row ''J826'' j826_flat_fee j826_materials mc cols (length results + 1) row = Inr r"
    by blast
  moreover have "\<exists>rs. j826_loop mc cols (results @ [r]) rws = Inr rs"
    by (rule Cons.IH) (use c Cons.prems in simp_all)
  ultimately show ?case
    by simp
qed

lemma f370_loop_no_company:
  "''Company Name'' \<notin> set cols \<Longrightarrow> rws \<noteq> [] \<Longrightarrow> f370_loop mc cols idx results rws = Inl KeyError"
  by (cases rws) (simp_all add: cost_row_no_company)

lemma j826_loop_no_company:
  "''Company Name'' \<notin> set cols \<Longrightarrow> rws \<noteq> [] \<Longrightarrow> j826_loop mc cols results rws = Inl KeyError"
  by (cases rws) (simp_all add: cost_row_no_company)

text \<open>
  C7 (as the code has it). The engine has no check of the columns before its loops: the
  company name is read row by row. Whatever the price table holds, it raises nothing
  when every dataset with a row has the column \<open>Company Name\<close> and the material columns
  that are present hold numbers; material columns may be missing. A dataset with at least
  one row and no \<open>Company Name\<close> column makes it raise: \<open>KeyError\<close> at the first F370 row,
  and for the J826 dataset an error at the latest when its first row is reached, after
  the F370 pass. The exception leaves the function before the output is written, so no
  output row is produced.
\<close>

theorem cost_rows_failure_semantics:
  "((rows f370_data = [] \<or> ''Company Name'' \<in> set (columns f370_data))
      \<and> (rows j826_data = [] \<or> ''Company Name'' \<in> set (columns j826_data))
      \<and> (\<forall>row \<in> set (rows f370_data). numeric_fields f370_materials (columns f370_data) row)
      \<and> (\<forall>row \<in> set (rows j826_data). numeric_fields j826_materials (columns j826_data) row)
      \<longrightarrow> (\<exists>rs. cost_rows mc f370_data j826_data = Inr rs))
   \<and> (''Company Name'' \<notin> set (columns f370_data) \<and> rows f370_data \<noteq> []
      \<longrightarrow> cost_rows mc f370_data j826_data = Inl KeyError)
   \<and> (''Company Name'' \<notin> set (columns j826_data) \<and> rows j826_data \<noteq> []
      \<longrightarrow> (\<exists>e. cost_rows mc f370_data j826_data = Inl e))"
proof (intro conjI impI)
  assume h: "(rows f370_data = [] \<or> ''Company Name'' \<in> set (columns f370_data))
      \<and> (rows j826_data = [] \<or> ''Company Name'' \<in> set (columns j826_data))
      \<and> (\<forall>row \<in> set (rows f370_data). numeric_fields f370_materials (columns f370_data) row)
      \<and> (\<forall>row \<in> set (rows j826_data). numeric_fields j826_materials (columns j826_data) row)"
  then obtain ra where ra: "f370_loop mc (columns f370_data) 0 [] (rows f370_data) = Inr ra"
    using f370_loop_ok[of "rows f370_data" "columns f370_data" mc 0 "[]"] by blast
  from h obtain rs where "j826_loop mc (columns j826_data) ra (rows j826_data) = Inr rs"
    using j826_loop_ok[of "rows j826_data" "columns j826_data" mc ra] by blast
  with ra show "\<exists>rs. cost_rows mc f370_data j826_data = Inr rs"
    by (simp add: cost_rows_def)
next
  assume "''Company Name'' \<notin> set (columns f370_data) \<and> rows f370_data \<noteq> []"
  then show "cost_rows mc f370_data j826_data = Inl KeyError"
    by (simp add: cost_rows_def f370_loop_no_company)
next
  assume "''Company Name'' \<notin> set (columns j826_data) \<and> rows j826_data \<noteq> []"
  then show "\<exists>e. cost_rows mc f370_data j826_data = Inl e"
    by (simp add: cost_rows_def j826_loop_no_company split: sum.splits)
qed

theorem cost_rows_failure_semantics_witness:
  "(\<exists>rs. cost_rows Map.empty \<lparr>columns = [''Company Name''], rows = [example_record]\<rparr>
        \<lparr>columns = [], rows = []\<rparr> = Inr rs)
   \<and> cost_rows Map.empty \<lparr>columns = [''QSR support''], rows = [example_record]\<rparr>
        \<lparr>columns = j826_columns, rows = [example_record]\<rparr> = Inl KeyError
   \<and> (\<exists>e. cost_rows Map.empty \<lparr>columns = f370_columns, rows = [example_record]\<rparr>
        \<lparr>columns = [''SUP706 (g)''], rows = [example_record]\<rparr> = Inl e)"
proof (intro conjI)
  let ?a = "\<lparr>columns = [''Company Name''], rows = [example_record]\<rparr>"
  let ?b = "\<lparr>columns = [], rows = []\<rparr> :: dataframe"
  have "(rows ?a = [] \<or> ''Company Name'' \<in> set (columns ?a))
      \<and> (rows ?b = [] \<or> ''Company Name'' \<in> set (columns ?b))
      \<and> (\<forall>row \<in> set (rows ?a). numeric_fields f370_materials (columns ?a) row)
      \<and> (\<forall>row \<in> set (rows ?b). numeric_fields j826_materials (columns ?b) row)"
    by (simp add: numeric_fields_def f370_materials_def)
  with cost_rows_failure_semantics [of ?a ?b Map.empty]
  show "\<exists>rs. cost_rows Map.empty ?a ?b = Inr rs"
    by blast
next
  let ?a = "\<lparr>columns = [''QSR support''], rows = [example_record]\<rparr>"
  let ?b = "\<lparr>columns = j826_columns, rows = [example_record]\<rparr>"
  have "''Company Name'' \<notin> set (columns ?a) \<and> rows ?a \<noteq> []"
    by simp
  with cost_rows_failure_semantics [of ?a ?b Map.empty]
  show "cost_rows Map.empty ?a ?b = Inl KeyError"
    by blast
next
  let ?a = "\<lparr>columns = f370_columns, rows = [example_record]\<rparr>"
  let ?b = "\<lparr>columns = [''SUP706 (g)''], rows = [example_record]\<rparr>"
  have "''Company Name'' \<notin> set (columns ?b) \<and> rows ?b \<noteq> []"
    by simp
  with cost_rows_failure_semantics [of ?a ?b Map.empty]
  show "\<exists>e. cost_rows Map.empty ?a ?b = Inl e"
    by blast
qed

text \<open>
  The claim as stated fails for a dataset without rows: the F370 dataset below has no
  \<open>Company Name\<close> column, nothing is raised, and the output has a row.
\<close>

theorem cost_rows_empty_dataset_counterexample:
  "''Company Name'' \<notin> set (columns \<lparr>columns = [''Print Time'', ''QSR support''], rows = []\<rparr>)
   \<and> cost_rows Map.empty \<lparr>columns = [''Print Time'', ''QSR support''], rows = []\<rparr>
        \<lparr>columns = j826_columns, rows = [example_record]\<rparr>
      = Inr [\<lparr>Print_Job = 1, Printer_Type = ''J826'', Filament_Fee = Fin 0, Flat_Fee = Fin (722 / 100),
               Total_Fee = Fin (722 / 100), Company_Name = Str ''Acme''\<rparr>]"
  by (simp add: cost_rows_def cost_row_def row_get_def add_material_def
      j826_materials_def j826_flat_fee_def example_record_def
      j826_columns_def round2_examples del: round2.simps)

subsection \<open>Price table parser\<close>





lemma parse_line_examples:
  "parse_line ''F370; PC-ABS BLK; 1000 cm3; $100.50''
     = Inr (Some ((''F370'', ''PC-ABS BLK''), \<lparr>volume = Some (Fin 10003), cost = Fin (201 / 2)\<rparr>))"
  "parse_line ''F370; PC-ABS BLK; ; $50''
     = Inr (Some ((''F370'', ''PC-ABS BLK''), \<lparr>volume = None, cost = Fin 50\<rparr>))"
  "parse_line ''F370; PC-ABS BLK; 1000 cm3; $abc'' = Inl ValueError"
  "parse_line ''** F370; PC-ABS BLK; 1000 cm3; $100.50'' = Inr None"
  "parse_line ''prices as of May'' = Inr None"
  by code_simp+

text \<open>
  C2 (what the code does at the claim's lines). The volume text \<open>1000 cm3\<close> keeps the
  digit of its unit: the reference volume of the first line is 10003, not 1000. Its key
  and cost are as claimed, and so is the cost-only entry of the line without volume.
\<close>

theorem parse_volume_keeps_unit_digit:
  "parse_material_cost [''F370; PC-ABS BLK; 1000 cm3; $100.50'']
     = Inr [(''F370'', ''PC-ABS BLK'') \<mapsto> \<lparr>volume = Some (Fin 10003), cost = Fin (201 / 2)\<rparr>]
   \<and> parse_material_cost [''F370; PC-ABS BLK; ; $50'']
     = Inr [(''F370'', ''PC-ABS BLK'') \<mapsto> \<lparr>volume = None, cost = Fin 50\<rparr>]
   \<and> parse_material_cost [''** F370; PC-ABS BLK; 1000 cm3; $100.50''] = Inr Map.empty"
  by (simp add: parse_material_cost_def parse_line_examples)




subsection \<open>Family B normalizer\<close>

text \<open>
  C3 (what the code does at the claim's inputs). The space after \<open>h\<close> stays in the
  minutes, which then are two characters long and get no zero: \<open>3h 5m\<close> gives \<open>3: 5\<close>
  and \<open>3h 55m\<close> gives \<open>3: 55\<close>, not \<open>3:05\<close> and \<open>3:55\<close>. A string with both letters that
  is no duration, such as \<open>hm\<close>, is formatted all the same.
\<close>

theorem format_print_time_keeps_space:
  "format_print_time ''3h 5m'' = Inr ''3: 5'' \<and> format_print_time ''3h 55m'' = Inr ''3: 55''
   \<and> format_print_time ''hm'' = Inr '':00''"
  by code_simp

lemma safe_float_zero: "safe_float (strip ''0'') = Fin 0"
  by code_simp

lemma convert_j826_fields:
  assumes "convert_j826_file float_str key_column = Inr r"
  shows "\<exists>dg vuw vbp s706.
      get_stripped (data_of key_column) ''DraftGrey (g)'' ''0'' = Inr dg \<and> draft_grey r = safe_float dg
    \<and> get_stripped (data_of key_column) ''VeroUltraWhite (g)'' ''0'' = Inr vuw \<and> vero_ultra_white r = safe_float vuw
    \<and> get_stripped (data_of key_column) ''VeroBlackPlus (g)'' ''0'' = Inr vbp \<and> vero_black_plus r = safe_float vbp
    \<and> get_stripped (data_of key_column) ''SUP706 (g)'' ''0'' = Inr s706 \<and> sup706 r = safe_float s706"
  using assms
  by (auto simp: convert_j826_file_def Let_def split: sum.splits)

lemma safe_float_get_stripped:
  assumes "get_stripped (data_of key_column) label ''0'' = Inr v"
  shows "safe_float v = spec_numeric_field key_column label"
  using assms safe_float_zero
  by (auto simp: get_stripped_def spec_numeric_field_def safe_float_def
      split: option.splits cell.splits)

lemma j826_example:
  "convert_j826_file (\<lambda>x. []) [Str ''DraftGrey (g)'', Str ''abc'', Str ''SUP706 (g)'', Str ''12.5'']
   = Inr \<lparr>print_time_hmm = ''0: 0'', draft_grey = Fin 0, vero_ultra_white = Fin 0,
          vero_black_plus = Fin 0, sup706 = Fin (25 / 2), company_name = ''Unknown Company''\<rparr>"
  by code_simp

text \<open>
  C9 (as the code has it). In every record the normalizer produces, each numeric field
  is 0 when its label is absent or its value is not a number, and otherwise the number
  \<open>float\<close> reads from the stripped value, whatever its sign: nothing makes it
  non-negative.
\<close>

theorem j826_numeric_fields_parsed_or_zero:
  assumes "convert_j826_file float_str key_column = Inr r"
  shows "draft_grey r = spec_numeric_field key_column ''DraftGrey (g)''
     \<and> vero_ultra_white r = spec_numeric_field key_column ''VeroUltraWhite (g)''
     \<and> vero_black_plus r = spec_numeric_field key_column ''VeroBlackPlus (g)''
     \<and> sup706 r = spec_numeric_field key_column ''SUP706 (g)''"
proof -
  from convert_j826_fields[OF assms] obtain dg vuw vbp s706 where g:
    "get_stripped (data_of key_column) ''DraftGrey (g)'' ''0'' = Inr dg" "draft_grey r = safe_float dg"
    "get_stripped (data_of key_column) ''VeroUltraWhite (g)'' ''0'' = Inr vuw" "vero_ultra_white r = safe_float vuw"
    "get_stripped (data_of key_column) ''VeroBlackPlus (g)'' ''0'' = Inr vbp" "vero_black_plus r = safe_float vbp"
    "get_stripped (data_of key_column) ''SUP706 (g)'' ''0'' = Inr s706" "sup706 r = safe_float s706"
    by blast
  show ?thesis
    unfolding g(2,4,6,8)
    by (intro conjI safe_float_get_stripped g(1,3,5,7))
qed

theorem j826_numeric_fields_parsed_or_zero_witness:
  "(\<exists>r. convert_j826_file (\<lambda>x. []) [Str ''DraftGrey (g)'', Str ''abc'', Str ''SUP706 (g)'', Str ''12.5''] = Inr r
      \<and> draft_grey r = Fin 0 \<and> sup706 r = Fin (25 / 2) \<and> vero_black_plus r = Fin 0)"
proof -
  let ?k = "[Str ''DraftGrey (g)'', Str ''abc'', Str ''SUP706 (g)'', Str ''12.5'']"
  obtain r where r: "convert_j826_file (\<lambda>x. []) ?k = Inr r"
    using j826_example by simp
  have v: "spec_numeric_field ?k ''DraftGrey (g)'' = Fin 0"
    "spec_numeric_field ?k ''SUP706 (g)'' = Fin (25 / 2)"
    "spec_numeric_field ?k ''VeroBlackPlus (g)'' = Fin 0"
    by code_simp+
  from j826_numeric_fields_parsed_or_zero [OF r] v
  have "draft_grey r = Fin 0 \<and> sup706 r = Fin (25 / 2) \<and> vero_black_plus r = Fin 0"
    by simp
  with r show ?thesis
    by blast
qed

text \<open>
  The claim as stated fails: the value \<open>-5\<close> of the label \<open>DraftGrey (g)\<close> gives the
  field -5.
\<close>

theorem j826_negative_field_counterexample:
  "convert_j826_file (\<lambda>x. []) [Str ''DraftGrey (g)'', Str ''-5'']
   = Inr \<lparr>print_time_hmm = ''0: 0'', draft_grey = Fin (- 5), vero_ultra_white = Fin 0,
          vero_black_plus = Fin 0, sup706 = Fin 0, company_name = ''Unknown Company''\<rparr>"
  by code_simp

subsection \<open>Family A normalizer: skipped files\<close>

lemma find_matching_column_matches:
  "find_matching_column cols keywords = Some c \<Longrightarrow> keyword_matches keywords c"
  by (auto simp: find_matching_column_find find_Some_iff)

lemma company_not_empty: "\<not> keyword_matches [''Company'', ''CompanyName''] []"
  by code_simp

lemma found_company:
  "find_matching_column cols [''Company'', ''CompanyName''] \<noteq> None \<Longrightarrow>
   found (find_matching_column cols [''Company'', ''CompanyName''])"
  using find_matching_column_matches[of cols "[''Company'', ''CompanyName'']"] company_not_empty
  by (auto simp: found_def split: option.splits)

lemma process_frame_no_company:
  assumes "find_matching_column (columns df) [''Company'', ''CompanyName''] = None"
  shows "process_frame name df (combined_df, printed)
    = Inr (combined_df, printed @ [Warning_no_company_column name])"
  using assms by (simp add: process_frame_def found_def)

lemma process_frame_missing_critical:
  assumes "find_matching_column (columns df) [''Company'', ''CompanyName''] \<noteq> None"
    and "find_matching_column (columns df) [''Print Time'', ''h:mm''] = None
       \<or> find_matching_column (columns df) [''Support'', ''QSR''] = None"
  shows "process_frame name df (combined_df, printed)
    = Inr (combined_df, printed @ [Warning_missing_critical_columns name, Detected_columns (columns df)])"
proof -
  from assms(2) have "\<not> (found (find_matching_column (columns df) [''Print Time'', ''h:mm''])
      \<and> found (find_matching_column (columns df) [''Support'', ''QSR'']))"
    by (auto simp: found_def)
  with found_company[OF assms(1)] show ?thesis
    by (simp add: process_frame_def Let_def)
qed

text \<open>
  C10. A Family A file that was read and has no field name matching the company
  synonyms is skipped: the combined table stays as it is, the warning is printed and the
  loop goes on with the next file. A file with a company field but without a print-time
  or a support field is skipped in the same way, with the warning and the list of all
  field names of the file.
\<close>

theorem f370_files_without_fields_are_skipped:
  assumes "py_in ''_Print_F370'' (file_name f)" and "suffix ''.csv'' (file_name f)"
    and "read_csv f = Inr df"
  shows "(find_matching_column (columns df) [''Company'', ''CompanyName''] = None \<longrightarrow>
      process_files (combined_df, printed) (f # fs)
        = process_files (combined_df,
            printed @ [Processing_file (file_name f), Warning_no_company_column (file_name f)]) fs)
    \<and> (find_matching_column (columns df) [''Company'', ''CompanyName''] \<noteq> None
        \<and> (find_matching_column (columns df) [''Print Time'', ''h:mm''] = None
           \<or> find_matching_column (columns df) [''Support'', ''QSR''] = None) \<longrightarrow>
      process_files (combined_df, printed) (f # fs)
        = process_files (combined_df,
            printed @ [Processing_file (file_name f), Warning_missing_critical_columns (file_name f),
                       Detected_columns (columns df)]) fs)"
  using assms
  by (auto simp: process_file_def process_frame_no_company process_frame_missing_critical)

theorem f370_files_without_fields_are_skipped_witness:
  "process_f370_files
     [\<lparr>file_name = ''May_Print_F370.csv'',
       read_csv = Inr \<lparr>columns = [''Print Time (h:mm)'', ''ABS in cm3'', ''Support''],
                       rows = [example_record]\<rparr>\<rparr>,
      \<lparr>file_name = ''June_Print_F370.csv'',
       read_csv = Inr \<lparr>columns = [''Company'', ''ABS in cm3''], rows = [example_record]\<rparr>\<rparr>]
   = Inr (\<lparr>columns = [], rows = []\<rparr>,
          [Processing_file ''May_Print_F370.csv'', Warning_no_company_column ''May_Print_F370.csv'',
           Processing_file ''June_Print_F370.csv'', Warning_missing_critical_columns ''June_Print_F370.csv'',
           Detected_columns [''Company'', ''ABS in cm3''], No_valid_files_processed])"
proof -
  let ?d1 = "\<lparr>columns = [''Print Time (h:mm)'', ''ABS in cm3'', ''Support''], rows = [example_record]\<rparr>"
  let ?d2 = "\<lparr>columns = [''Company'', ''ABS in cm3''], rows = [example_record]\<rparr>"
  let ?f1 = "\<lparr>file_name = ''May_Print_F370.csv'', read_csv = Inr ?d1\<rparr>"
  let ?f2 = "\<lparr>file_name = ''June_Print_F370.csv'', read_csv = Inr ?d2\<rparr>"
  have n1: "py_in ''_Print_F370'' (file_name ?f1)" "suffix ''.csv'' (file_name ?f1)"
    and n2: "py_in ''_Print_F370'' (file_name ?f2)" "suffix ''.csv'' (file_name ?f2)"
    by code_simp+
  have c1: "find_matching_column (columns ?d1) [''Company'', ''CompanyName''] = None"
    by code_simp
  have c2: "find_matching_column (columns ?d2) [''Company'', ''CompanyName''] \<noteq> None"
    "find_matching_column (columns ?d2) [''Print Time'', ''h:mm''] = None"
    by code_simp+
  have s1: "process_files (\<lparr>columns = [], rows = []\<rparr>, []) (?f1 # [?f2])
      = process_files (\<lparr>columns = [], rows = []\<rparr>,
          [] @ [Processing_file (file_name ?f1), Warning_no_company_column (file_name ?f1)]) [?f2]"
    using f370_files_without_fields_are_skipped [OF n1, of ?d1 "\<lparr>columns = [], rows = []\<rparr>" "[]" "[?f2]"] c1
    by simp
  have s2: "process_files (\<lparr>columns = [], rows = []\<rparr>,
          [Processing_file (file_name ?f1), Warning_no_company_column (file_name ?f1)]) (?f2 # [])
      = process_files (\<lparr>columns = [], rows = []\<rparr>,
          [Processing_file (file_name ?f1), Warning_no_company_column (file_name ?f1)]
          @ [Processing_file (file_name ?f2), Warning_missing_critical_columns (file_name ?f2),
             Detected_columns (columns ?d2)]) []"
    using f370_files_without_fields_are_skipped [OF n2, of ?d2 "\<lparr>columns = [], rows = []\<rparr>"
        "[Processing_file (file_name ?f1), Warning_no_company_column (file_name ?f1)]" "[]"] c2
    by simp
  show ?thesis
    unfolding process_f370_files_def using s1 s2 by simp
qed

subsection \<open>Family A normalizer: columns of the combined table\<close>

text \<open>
  The table the normalizer returns is empty or has exactly the five canonical columns, in
  the order of \<open>required_columns\<close>: the records C1 speaks of.
\<close>

lemma select_columns_names:
  "select_columns names df = Inr df' \<Longrightarrow> columns df' = names"
  by (auto simp: select_columns_def split: if_splits)

lemma concat_frames_columns:
  "columns a = [] \<or> columns a = columns b \<Longrightarrow> columns (concat_frames a b) = columns b"
  by (auto simp: concat_frames_def)

lemma process_frame_columns:
  assumes "process_frame name df (combined_df, printed) = Inr (combined_df', printed')"
    and "columns combined_df = [] \<or> columns combined_df = required_columns"
  shows "columns combined_df' = [] \<or> columns combined_df' = required_columns"
  using assms
  by (auto simp: process_frame_def Let_def concat_frames_columns dest!: select_columns_names
      split: if_splits sum.splits)

lemma process_file_columns:
  assumes "process_file (combined_df, printed) f = Inr (combined_df', printed')"
    and "columns combined_df = [] \<or> columns combined_df = required_columns"
  shows "columns combined_df' = [] \<or> columns combined_df' = required_columns"
  using assms
  by (auto simp: process_file_def dest: process_frame_columns split: if_splits sum.splits)

lemma process_files_columns:
  assumes "process_files st files = Inr st'"
    and "columns (fst st) = [] \<or> columns (fst st) = required_columns"
  shows "columns (fst st') = [] \<or> columns (fst st') = required_columns"
  using assms
proof (induction files arbitrary: st)
  case Nil
  then show ?case by simp
next
  case (Cons f files)
  from Cons.prems(1) obtain st1 where
    one: "process_file st f = Inr st1" and rest: "process_files st1 files = Inr st'"
    by (auto split: sum.splits)
  have "columns (fst st1) = [] \<or> columns (fst st1) = required_columns"
    using process_file_columns[of "fst st" "snd st" f "fst st1" "snd st1"] one Cons.prems(2)
    by simp
  with rest show ?case
    by (rule Cons.IH)
qed

lemma process_f370_files_columns:
  assumes "process_f370_files files = Inr (combined_df, printed)"
  shows "columns combined_df = [] \<or> columns combined_df = required_columns"
proof -
  from assms obtain st' where st: "process_files (\<lparr>columns = [], rows = []\<rparr>, []) files = Inr st'"
    and c: "combined_df = fst st'"
    by (auto simp: process_f370_files_def split: sum.splits)
  from process_files_columns[OF st] c show ?thesis
    by simp
qed

end
